theory Spec2Isabelle
  imports Complex_Main "HOL-Library.AList" "HOL-Library.Log_Nat"
begin

section \<open>Data model\<close>

text \<open>
  The contest application keeps, per contest, a list of problems and an append-only list of
  submissions. Instants are the millisecond values the source obtains with
  \<^verbatim>\<open>new Date(sub.date).getTime()\<close> and
  \<^verbatim>\<open>DateTime.fromISO(...).toJSDate().getTime()\<close>; they are integers.

  The source stores the result of a submission as one of three strings. \<open>CA\<close> and \<open>WA\<close> are
  the literals \<^verbatim>\<open>'CA'\<close> and \<^verbatim>\<open>'WA'\<close>; \<open>UNJUDGED\<close> stands for the third literal, the
  Japanese word for "not judged" that the submit route writes when no correct answer is
  configured.

  A \<^verbatim>\<open>Map\<close> is an association list in insertion order: \<open>map_of\<close> reads a key,
  \<open>AList.update\<close> overwrites a key in place or appends a new one at the end. The plain
  objects of the ranking route are association lists of their own properties; what they
  inherit from \<^verbatim>\<open>Object.prototype\<close> is treated in the section on the ranking. Strings
  are lists of 8-bit code units.
\<close>

datatype result = CA | WA | UNJUDGED

record submission =
  contestId :: int
  date :: int
  problemId :: string
  user :: string
  result :: result
  answer :: string

text \<open>
  A problem's \<open>score\<close> and \<open>correctAnswer\<close> may be missing (\<^verbatim>\<open>undefined\<close>) in stored data,
  hence the options. The field \<^verbatim>\<open>id\<close> is named \<open>problem_id\<close> and \<^verbatim>\<open>score\<close> is named
  \<open>problem_score\<close> here.
\<close>

record problem =
  problem_id :: string
  problem_score :: "int option"
  correctAnswer :: "string option"

record contest =
  startTime :: int
  endTime :: int
  problems :: "problem list"
  submissions :: "submission list"
  submissionLimit :: "int option"

record account =
  username :: string
  isAdmin :: bool

section \<open>Best-attempt resolver\<close>

text \<open>
  \<^verbatim>\<open>
  const userSubmissionsDuringContestMap = new Map();
  submissionsDuringContest.forEach((sub) => {
      const key = `${contestId}-${sub.user}-${sub.problemId}`;
      const existingSub = userSubmissionsDuringContestMap.get(key);
      if (!existingSub ||
          (existingSub.result !== 'CA' && sub.result === 'CA') ||
          (existingSub.result !== 'CA' && sub.result !== 'CA' &&
              new Date(sub.date).getTime() > new Date(existingSub.date).getTime())) {
          userSubmissionsDuringContestMap.set(key, sub);
      }
  });
  \<close>
  The ranking route prefixes the key with the contest index and a dash, the contest page
  uses the key without prefix; \<open>prefix\<close> is that constant part of the key.
\<close>

definition submissionsDuringContest :: "contest \<Rightarrow> submission list" where
  "submissionsDuringContest c = filter (\<lambda>sub. date sub \<le> endTime c) (submissions c)"

definition groupKey :: "string \<Rightarrow> string \<Rightarrow> string \<Rightarrow> string" where
  "groupKey prefix u p = prefix @ u @ ''-'' @ p"

definition subKey :: "string \<Rightarrow> submission \<Rightarrow> string" where
  "subKey prefix sub = groupKey prefix (user sub) (problemId sub)"

definition replaces :: "submission \<Rightarrow> submission \<Rightarrow> bool" where
  "replaces existingSub sub \<longleftrightarrow>
     (result existingSub \<noteq> CA \<and> result sub = CA) \<or>
     (result existingSub \<noteq> CA \<and> result sub \<noteq> CA \<and> date sub > date existingSub)"

definition resolveStep ::
  "string \<Rightarrow> (string \<times> submission) list \<Rightarrow> submission \<Rightarrow> (string \<times> submission) list" where
  "resolveStep prefix m sub =
     (let key = subKey prefix sub in
      case map_of m key of
        None \<Rightarrow> AList.update key sub m
      | Some existingSub \<Rightarrow>
          if replaces existingSub sub then AList.update key sub m else m)"

definition resolve :: "string \<Rightarrow> submission list \<Rightarrow> (string \<times> submission) list" where
  "resolve prefix subs = foldl (resolveStep prefix) [] subs"

text \<open>Decimal rendering of the contest index inside the template string.\<close>

fun decimal :: "nat \<Rightarrow> string" where
  "decimal n =
     (if n < 10 then [char_of (48 + n)]
      else decimal (n div 10) @ [char_of (48 + n mod 10)])"

definition rankingPrefix :: "nat \<Rightarrow> string" where
  "rankingPrefix cid = decimal cid @ ''-''"

definition userSubmissionsDuringContestMap ::
  "nat \<Rightarrow> contest \<Rightarrow> (string \<times> submission) list" where
  "userSubmissionsDuringContestMap cid c = resolve (rankingPrefix cid) (submissionsDuringContest c)"

section \<open>Numbers\<close>

text \<open>
  The numbers of the source are IEEE 754 doubles. A finite double is represented by the
  rational it denotes, and \<open>toDouble\<close> rounds a rational to the nearest double, ties to the
  even significand, with gradual underflow: the significand has 53 bits and the exponent
  of its last bit is at least -1074. Infinities and \<^verbatim>\<open>NaN\<close> are not represented; with
  the instants a \<^verbatim>\<open>Date\<close> can hold (at most 8.64e15 in magnitude) the times of the
  ranking stay far below the overflow threshold, and the scores are taken to have finite
  sums. Comparisons and \<^verbatim>\<open>Math.max\<close> of doubles are exact, and the sign of a
  difference of two doubles is the sign of the exact difference.
\<close>

definition pow2 :: "int \<Rightarrow> rat" where
  "pow2 e = (if e \<ge> 0 then 2 ^ nat e else 1 / 2 ^ nat (- e))"

definition roundHalfEven :: "rat \<Rightarrow> int" where
  "roundHalfEven x =
     (let n = \<lfloor>x\<rfloor>; r = x - of_int n
      in if r < 1 / 2 then n else if r > 1 / 2 then n + 1 else if even n then n else n + 1)"

text \<open>For \<open>x > 0\<close>, the exponent \<open>e\<close> with \<open>2 ^ e \<le> x < 2 ^ (e + 1)\<close>.\<close>

definition binaryExponent :: "rat \<Rightarrow> int" where
  "binaryExponent x =
     (let k = bitlen (fst (quotient_of x)) - bitlen (snd (quotient_of x))
      in if pow2 k \<le> x then k else k - 1)"

definition toDouble :: "rat \<Rightarrow> rat" where
  "toDouble x =
     (if x = 0 then 0
      else let e = max (binaryExponent \<bar>x\<bar> - 52) (- 1074)
           in sgn x * of_int (roundHalfEven (\<bar>x\<bar> / pow2 e)) * pow2 e)"

section \<open>Ranking calculator\<close>

datatype status = StNone | StWA | StCA

text \<open>
  The counters \<open>waCountBeforeCA\<close> and \<open>waCount\<close> are incremented by one per submission;
  below \<open>2 ^ 53\<close> these additions are exact, and the counters are integers here.
\<close>

record problemStat =
  status :: status
  time :: "rat option"
  waCountBeforeCA :: int
  waCount :: int

record userStat =
  score :: rat
  lastCATime :: rat
  stat_problems :: "(string \<times> problemStat) list"
  totalWABeforeCA :: int

record firstAcceptor =
  fa_user :: string
  fa_time :: int

text \<open>
  \<open>userStats\<close>, the \<open>problems\<close> of a user, \<open>firstFA\<close> and \<open>problemScores\<close> are plain
  objects (\<^verbatim>\<open>{}\<close>) used as dictionaries, so a key that names a property of
  \<^verbatim>\<open>Object.prototype\<close> reads the inherited value where no own property exists:
  \<^item> \<^verbatim>\<open>userStats[username]\<close> is then a built-in function (or \<^verbatim>\<open>Object.prototype\<close>
    itself) and truthy, no entry is created, \<^verbatim>\<open>userStats[username].problems\<close> is
    \<^verbatim>\<open>undefined\<close> and indexing it throws a \<^verbatim>\<open>TypeError\<close>; the route catches it and
    answers with status 500;
  \<^item> \<^verbatim>\<open>userStats[username].problems[problemId]\<close> is then truthy as well, no entry is
    created and the fold reads and writes \<^verbatim>\<open>status\<close>, \<^verbatim>\<open>time\<close> and the counters
    of the built-in object, which outlives the request. Nothing throws, but the page then
    depends on what earlier requests left there; the fold records in \<open>builtinsWritten\<close>
    that this happened and the page is not determined any further.
\<close>

definition objectPrototypeNames :: "string list" where
  "objectPrototypeNames =
     [''constructor'', ''__defineGetter__'', ''__defineSetter__'', ''hasOwnProperty'',
      ''__lookupGetter__'', ''__lookupSetter__'', ''isPrototypeOf'', ''propertyIsEnumerable'',
      ''toString'', ''valueOf'', ''__proto__'', ''toLocaleString'']"

definition inherited :: "string \<Rightarrow> bool" where
  "inherited k \<longleftrightarrow> k \<in> set objectPrototypeNames"

datatype jsError = TypeError

record rankState =
  userStats :: "(string \<times> userStat) list"
  firstFA :: "(string \<times> firstAcceptor) list"
  builtinsWritten :: bool

text \<open>
  \<^verbatim>\<open>
  (contest.problems || []).forEach((problem) => {
      problemScores[problem.id] = problem.score || 100;
  });
  \<close>
\<close>

definition scoreOr100 :: "problem \<Rightarrow> int" where
  "scoreOr100 p = (case problem_score p of None \<Rightarrow> 100 | Some s \<Rightarrow> if s = 0 then 100 else s)"

definition problemScores :: "contest \<Rightarrow> (string \<times> int) list" where
  "problemScores c = foldl (\<lambda>m p. AList.update (problem_id p) (scoreOr100 p) m) [] (problems c)"

text \<open>\<^verbatim>\<open>problemScores[problemId] || 0\<close>, for a \<open>problemId\<close> that is not inherited.\<close>

definition scoreOf :: "(string \<times> int) list \<Rightarrow> string \<Rightarrow> int" where
  "scoreOf ps p = (case map_of ps p of None \<Rightarrow> 0 | Some s \<Rightarrow> s)"

definition newUserStat :: userStat where
  "newUserStat = \<lparr>score = 0, lastCATime = 0, stat_problems = [], totalWABeforeCA = 0\<rparr>"

definition newProblemStat :: problemStat where
  "newProblemStat = \<lparr>status = StNone, time = None, waCountBeforeCA = 0, waCount = 0\<rparr>"

text \<open>\<^verbatim>\<open>(submissionTime - startTime) / 1000\<close>\<close>

definition timeSinceStart :: "int \<Rightarrow> submission \<Rightarrow> rat" where
  "timeSinceStart start sub = toDouble (toDouble (of_int (date sub - start)) / 1000)"

text \<open>
  One iteration of the \<^verbatim>\<open>submissionsDuringContest.forEach\<close> fold of the ranking route.
  For keys that are not inherited, both the user's entry and the problem's entry are
  created before the result is looked at, so they exist afterwards whatever the result is.
\<close>

definition rankStep ::
  "(string \<times> int) list \<Rightarrow> int \<Rightarrow> rankState \<Rightarrow> submission \<Rightarrow> jsError + rankState" where
  "rankStep scores start st sub =
     (let uname = user sub;
          pid = problemId sub;
          submissionTime = date sub;
          t = timeSinceStart start sub;
          us = (case map_of (userStats st) uname of None \<Rightarrow> newUserStat | Some s \<Rightarrow> s);
          ps = (case map_of (stat_problems us) pid of None \<Rightarrow> newProblemStat | Some p \<Rightarrow> p)
      in
      if inherited uname then Inl TypeError
      else if inherited pid then
        Inr (st\<lparr>userStats := AList.update uname us (userStats st), builtinsWritten := True\<rparr>)
      else if result sub = CA \<and> status ps \<noteq> StCA then
        Inr (st\<lparr>userStats := AList.update uname
           (us\<lparr>score := toDouble (score us + of_int (scoreOf scores pid)),
               lastCATime := max (lastCATime us) t,
               stat_problems := AList.update pid (ps\<lparr>status := StCA, time := Some t\<rparr>)
                                  (stat_problems us)\<rparr>)
           (userStats st),
         firstFA :=
           (case map_of (firstFA st) pid of
              None \<Rightarrow> AList.update pid \<lparr>fa_user = uname, fa_time = submissionTime\<rparr> (firstFA st)
            | Some f \<Rightarrow>
                if submissionTime < fa_time f
                then AList.update pid \<lparr>fa_user = uname, fa_time = submissionTime\<rparr> (firstFA st)
                else firstFA st)\<rparr>)
      else if result sub = WA \<and> status ps \<noteq> StCA then
        Inr (st\<lparr>userStats := AList.update uname
           (us\<lparr>stat_problems := AList.update pid
                 (ps\<lparr>waCountBeforeCA := waCountBeforeCA ps + 1,
                     waCount := waCount ps + 1,
                     status := StWA\<rparr>) (stat_problems us)\<rparr>)
           (userStats st)\<rparr>)
      else if result sub = WA then
        Inr (st\<lparr>userStats := AList.update uname
           (us\<lparr>stat_problems := AList.update pid (ps\<lparr>waCount := waCount ps + 1\<rparr>)
                 (stat_problems us)\<rparr>)
           (userStats st)\<rparr>)
      else
        Inr (st\<lparr>userStats := AList.update uname
           (us\<lparr>stat_problems := AList.update pid ps (stat_problems us)\<rparr>)
           (userStats st)\<rparr>))"

text \<open>The \<^verbatim>\<open>forEach\<close>: it stops at the first iteration that throws.\<close>

fun rankLoop ::
  "(string \<times> int) list \<Rightarrow> int \<Rightarrow> rankState \<Rightarrow> submission list \<Rightarrow> jsError + rankState" where
  "rankLoop scores start st [] = Inr st"
| "rankLoop scores start st (sub # subs) =
     (case rankStep scores start st sub of
        Inl e \<Rightarrow> Inl e
      | Inr st' \<Rightarrow> rankLoop scores start st' subs)"

text \<open>
  \<^verbatim>\<open>submissionsDuringContest.sort((a, b) => time(a) - time(b))\<close>: the engine's sort is
  stable, as is \<open>sort_key\<close>.
\<close>

definition sortedSubmissions :: "contest \<Rightarrow> submission list" where
  "sortedSubmissions c = sort_key date (submissionsDuringContest c)"

definition rankFold :: "contest \<Rightarrow> jsError + rankState" where
  "rankFold c =
     rankLoop (problemScores c) (startTime c)
       \<lparr>userStats = [], firstFA = [], builtinsWritten = False\<rparr> (sortedSubmissions c)"

text \<open>
  \<^verbatim>\<open>
  Object.values(userStats[username].problems)
      .reduce((sum, p) => sum + (p.status === 'CA' ? p.waCountBeforeCA : 0), 0)
  \<close>
\<close>

definition sumWABeforeCA :: "(string \<times> problemStat) list \<Rightarrow> int" where
  "sumWABeforeCA ps =
     foldl (\<lambda>sum p. sum + (if status p = StCA then waCountBeforeCA p else 0)) 0 (map snd ps)"

text \<open>
  \<^verbatim>\<open>Object.keys\<close> lists the keys that are array indices first, in ascending numeric
  order, and then the other keys in insertion order.
\<close>

definition isDigit :: "char \<Rightarrow> bool" where
  "isDigit ch \<longleftrightarrow> 48 \<le> (of_char ch :: int) \<and> (of_char ch :: int) \<le> 57"

definition digitsValue :: "string \<Rightarrow> int" where
  "digitsValue s = foldl (\<lambda>n ch. 10 * n + (of_char ch - 48)) 0 s"

definition isArrayIndex :: "string \<Rightarrow> bool" where
  "isArrayIndex s \<longleftrightarrow>
     s \<noteq> [] \<and> list_all isDigit s \<and> (length s = 1 \<or> hd s \<noteq> CHR ''0'') \<and>
     digitsValue s < 4294967295"

definition objectKeys :: "(string \<times> 'a) list \<Rightarrow> string list" where
  "objectKeys m =
     (let ks = map fst m in
      sort_key digitsValue (filter isArrayIndex ks) @ filter (\<lambda>k. \<not> isArrayIndex k) ks)"

record ranking =
  rank_username :: string
  rank_score :: rat
  rank_lastCATime :: rat
  rank_problems :: "(string \<times> problemStat) list"
  rank_totalWABeforeCA :: int

text \<open>
  \<^verbatim>\<open>
  const penaltyTime = stats.totalWABeforeCA * 300;
  return { username, score: stats.score, lastCATime: stats.lastCATime + penaltyTime, ... };
  \<close>
\<close>

definition rankingEntry :: "(string \<times> userStat) list \<Rightarrow> string \<Rightarrow> ranking" where
  "rankingEntry stats uname =
     (let st = the (map_of stats uname);
          total = sumWABeforeCA (stat_problems st);
          penaltyTime = toDouble (of_int (total * 300))
      in \<lparr>rank_username = uname,
          rank_score = score st,
          rank_lastCATime = toDouble (lastCATime st + penaltyTime),
          rank_problems = stat_problems st,
          rank_totalWABeforeCA = total\<rparr>)"

text \<open>
  \<^verbatim>\<open>
  rankings.sort((a, b) => {
      if (b.score !== a.score) return b.score - a.score;
      return a.lastCATime - b.lastCATime;
  });
  \<close>
  A stable insertion sort driven by the comparator: an element goes before the first one
  it does not compare greater than. Only the sign of the comparator matters, and the
  difference of two doubles has the sign of the exact difference.
\<close>

definition compareRank :: "ranking \<Rightarrow> ranking \<Rightarrow> rat" where
  "compareRank a b =
     (if rank_score b \<noteq> rank_score a then rank_score b - rank_score a
      else rank_lastCATime a - rank_lastCATime b)"

fun insertBy :: "('a \<Rightarrow> 'a \<Rightarrow> rat) \<Rightarrow> 'a \<Rightarrow> 'a list \<Rightarrow> 'a list" where
  "insertBy cmp x [] = [x]"
| "insertBy cmp x (y # ys) = (if cmp x y \<le> 0 then x # y # ys else y # insertBy cmp x ys)"

definition sortBy :: "('a \<Rightarrow> 'a \<Rightarrow> rat) \<Rightarrow> 'a list \<Rightarrow> 'a list" where
  "sortBy cmp xs = foldr (insertBy cmp) xs []"

definition rankingsOf :: "(string \<times> userStat) list \<Rightarrow> ranking list" where
  "rankingsOf stats = sortBy compareRank (map (rankingEntry stats) (objectKeys stats))"

text \<open>
  What the route answers: the page, rendered from the ordered entries and the FA table;
  status 500 when the fold has thrown; or a page that the contest alone does not determine.
\<close>

datatype rankingResponse =
    RankingPage "ranking list" "(string \<times> firstAcceptor) list"
  | RankingError500
  | RankingUndetermined

definition rankingOutput :: "contest \<Rightarrow> rankingResponse" where
  "rankingOutput c =
     (case rankFold c of
        Inl e \<Rightarrow> RankingError500
      | Inr st \<Rightarrow>
          if builtinsWritten st then RankingUndetermined
          else RankingPage (rankingsOf (userStats st)) (firstFA st))"

section \<open>Judge: the submit route\<close>

text \<open>
  \<^verbatim>\<open>
  const canManageContest = (user, contest) => {
      if (!user || !user.isAdmin) return false;
      return true;
  };
  const isContestStartedOrActive = (contest) => {
      const now = DateTime.now().setZone('Asia/Tokyo');
      ...
      return now >= start && now <= end;
  };
  \<close>
  The current instant is a parameter. The route reads the clock three times (manager check,
  limit check, time stamp of the record); the three readings are kept apart.
\<close>

definition canManageContest :: "account option \<Rightarrow> contest \<Rightarrow> bool" where
  "canManageContest usr c =
     (case usr of None \<Rightarrow> False | Some a \<Rightarrow> if \<not> isAdmin a then False else True)"

definition isContestStartedOrActive :: "int \<Rightarrow> contest \<Rightarrow> bool" where
  "isContestStartedOrActive now c \<longleftrightarrow> now \<ge> startTime c \<and> now \<le> endTime c"

record clock =
  nowManagerCheck :: int
  nowLimitCheck :: int
  nowSubmission :: int

text \<open>
  \<^verbatim>\<open>String.prototype.trim\<close> removes white space and line terminators at both ends; among
  the code units below 256 these are 9 to 13, 32 and 160. The test of
  \<^verbatim>\<open>/^[0-9]+$/\<close> holds for the non-empty strings of ASCII digits.
\<close>

definition isWhiteSpace :: "char \<Rightarrow> bool" where
  "isWhiteSpace ch \<longleftrightarrow> (of_char ch :: int) \<in> set [9, 10, 11, 12, 13, 32, 160]"

definition trim :: "string \<Rightarrow> string" where
  "trim s = rev (dropWhile isWhiteSpace (rev (dropWhile isWhiteSpace s)))"

definition regexTest :: "string \<Rightarrow> bool" where
  "regexTest s \<longleftrightarrow> s \<noteq> [] \<and> list_all isDigit s"

text \<open>\<^verbatim>\<open>contest.submissionLimit || 10\<close>\<close>

definition limitOr10 :: "contest \<Rightarrow> int" where
  "limitOr10 c = (case submissionLimit c of None \<Rightarrow> 10 | Some n \<Rightarrow> if n = 0 then 10 else n)"

definition userProblemSubmissionsDuringContest ::
  "contest \<Rightarrow> string \<Rightarrow> string \<Rightarrow> submission list" where
  "userProblemSubmissionsDuringContest c uname pid =
     filter (\<lambda>sub. user sub = uname \<and> problemId sub = pid \<and> date sub \<le> endTime c)
       (submissions c)"

text \<open>
  \<^verbatim>\<open>
  const correctAnswer = problem.correctAnswer ? problem.correctAnswer.toString().trim() : null;
  const result = correctAnswer ? (submittedAnswer === correctAnswer ? 'CA' : 'WA') : <unjudged>;
  \<close>
  An empty string is falsy, both before and after trimming.
\<close>

definition judgeResult :: "problem \<Rightarrow> string \<Rightarrow> result" where
  "judgeResult p submittedAnswer =
     (let trimmed =
        (case correctAnswer p of
           None \<Rightarrow> None
         | Some ca \<Rightarrow> if ca = [] then None else Some (trim ca))
      in case trimmed of
           None \<Rightarrow> UNJUDGED
         | Some ca \<Rightarrow>
             if ca = [] then UNJUDGED
             else if submittedAnswer = ca then CA else WA)"

datatype response =
    RedirectLogin
  | ContestNotFound
  | ForbiddenManagerSubmission
  | ProblemNotFound
  | SubmissionLimitExceeded
  | ServerError
  | InvalidAnswerFormat
  | Submitted

text \<open>
  The handler of \<^verbatim>\<open>POST /contest/:contestId/submit/:problemId\<close>. \<open>usr\<close> is the account
  found from the cookie, \<open>cidParam\<close> the value of \<^verbatim>\<open>parseInt(req.params.contestId)\<close>
  (\<open>None\<close> for \<^verbatim>\<open>NaN\<close>), \<open>ans\<close> the field \<^verbatim>\<open>req.body.answer\<close> (\<open>None\<close> when it is
  missing: \<^verbatim>\<open>.trim()\<close> then throws and the \<^verbatim>\<open>catch\<close> answers with status 500). The
  result pairs the response with the contests as saved.
\<close>

definition submitAnswer ::
  "clock \<Rightarrow> account option \<Rightarrow> contest list \<Rightarrow> int option \<Rightarrow> string \<Rightarrow> string option
     \<Rightarrow> response \<times> contest list" where
  "submitAnswer clk usr contests cidParam pid ans =
     (case usr of
        None \<Rightarrow> (RedirectLogin, contests)
      | Some u \<Rightarrow>
     (case cidParam of
        None \<Rightarrow> (ContestNotFound, contests)
      | Some cid \<Rightarrow>
     if cid < 0 \<or> cid \<ge> int (length contests) then (ContestNotFound, contests)
     else
       let c = contests ! nat cid in
       if isContestStartedOrActive (nowManagerCheck clk) c \<and> canManageContest usr c
       then (ForbiddenManagerSubmission, contests)
       else
     (case find (\<lambda>p. problem_id p = pid) (problems c) of
        None \<Rightarrow> (ProblemNotFound, contests)
      | Some p \<Rightarrow>
       let lim = limitOr10 c;
           during = userProblemSubmissionsDuringContest c (username u) pid
       in
       if isContestStartedOrActive (nowLimitCheck clk) c \<and> int (length during) \<ge> lim
       then (SubmissionLimitExceeded, contests)
       else
     (case ans of
        None \<Rightarrow> (ServerError, contests)
      | Some a \<Rightarrow>
       let submittedAnswer = trim a in
       if \<not> regexTest submittedAnswer then (InvalidAnswerFormat, contests)
       else
         let sub = \<lparr>contestId = cid, date = nowSubmission clk, problemId = pid,
                    user = username u, result = judgeResult p submittedAnswer,
                    answer = submittedAnswer\<rparr>
         in (Submitted,
             contests[nat cid := c\<lparr>submissions := submissions c @ [sub]\<rparr>])))))"

section \<open>Reference notions used in the statements\<close>

text \<open>The submissions of one user for one problem, in the order of the list.\<close>

definition submissionsOf :: "string \<Rightarrow> string \<Rightarrow> submission list \<Rightarrow> submission list" where
  "submissionsOf u p subs = filter (\<lambda>sub. user sub = u \<and> problemId sub = p) subs"


text \<open>
  The quantities of the penalty formula as the specification words them, read off a list
  of submissions in the order of time, with exact arithmetic: the problems a user has an
  accepted submission for, the offset in seconds of the first accepted submission of a
  problem, the number of wrong answers before it, and the formula itself.
\<close>

definition acceptedFor :: "string \<Rightarrow> string \<Rightarrow> submission \<Rightarrow> bool" where
  "acceptedFor u p sub \<longleftrightarrow> user sub = u \<and> problemId sub = p \<and> result sub = CA"

definition solvedProblems :: "submission list \<Rightarrow> string \<Rightarrow> string list" where
  "solvedProblems subs u =
     remdups (map problemId (filter (\<lambda>sub. user sub = u \<and> result sub = CA) subs))"

definition acceptedAtOffset :: "int \<Rightarrow> submission list \<Rightarrow> string \<Rightarrow> string \<Rightarrow> rat" where
  "acceptedAtOffset start subs u p =
     (case find (acceptedFor u p) subs of
        None \<Rightarrow> 0
      | Some sub \<Rightarrow> of_int (date sub - start) / 1000)"

definition maxAcceptedOffset :: "int \<Rightarrow> submission list \<Rightarrow> string \<Rightarrow> rat" where
  "maxAcceptedOffset start subs u =
     (let offs = map (acceptedAtOffset start subs u) (solvedProblems subs u)
      in if offs = [] then 0 else Max (set offs))"

definition wrongCountBeforeAccept :: "submission list \<Rightarrow> string \<Rightarrow> string \<Rightarrow> int" where
  "wrongCountBeforeAccept subs u p =
     int (length (filter (\<lambda>sub. user sub = u \<and> problemId sub = p \<and> result sub = WA)
                    (takeWhile (\<lambda>sub. \<not> acceptedFor u p sub) subs)))"

definition totalWrongBeforeAccept :: "submission list \<Rightarrow> string \<Rightarrow> int" where
  "totalWrongBeforeAccept subs u =
     sum_list (map (wrongCountBeforeAccept subs u) (solvedProblems subs u))"

definition penaltyFormula :: "int \<Rightarrow> submission list \<Rightarrow> string \<Rightarrow> rat" where
  "penaltyFormula start subs u =
     maxAcceptedOffset start subs u + 300 * of_int (totalWrongBeforeAccept subs u)"

text \<open>The entries of a page; none when the route has not produced a determined page.\<close>

definition pageEntries :: "rankingResponse \<Rightarrow> ranking list" where
  "pageEntries r = (case r of RankingPage entries fa \<Rightarrow> entries | _ \<Rightarrow> [])"

text \<open>The contest with the submissions made before \<open>startTime\<close> removed from its ledger.\<close>

definition withoutEarly :: "contest \<Rightarrow> contest" where
  "withoutEarly c = c\<lparr>submissions := filter (\<lambda>sub. \<not> date sub < startTime c) (submissions c)\<rparr>"

section \<open>Example data\<close>

definition mkSub :: "int \<Rightarrow> string \<Rightarrow> string \<Rightarrow> result \<Rightarrow> submission" where
  "mkSub d u p r =
     \<lparr>contestId = 0, date = d, problemId = p, user = u, result = r, answer = ''1''\<rparr>"

definition problemA :: problem where
  "problemA = \<lparr>problem_id = ''A'', problem_score = Some 100, correctAnswer = Some ''7''\<rparr>"

definition problemBlank :: problem where
  "problemBlank = \<lparr>problem_id = ''A'', problem_score = Some 100, correctAnswer = Some '' ''\<rparr>"

definition alice :: account where
  "alice = \<lparr>username = ''alice'', isAdmin = False\<rparr>"

definition admin :: account where
  "admin = \<lparr>username = ''admin'', isAdmin = True\<rparr>"

definition clockAt :: "int \<Rightarrow> clock" where
  "clockAt t = \<lparr>nowManagerCheck = t, nowLimitCheck = t, nowSubmission = t\<rparr>"

text \<open>
  A contest running from instant 1000000 to instant 2000000 with a limit of two submissions;
  \<open>alice\<close> has used both during the contest, \<open>admin\<close> has tried the problem twice before
  the start.
\<close>

definition contestFull :: contest where
  "contestFull =
     \<lparr>startTime = 1000000, endTime = 2000000, problems = [problemA],
      submissions = [mkSub 500000 ''admin'' ''A'' WA, mkSub 600000 ''admin'' ''A'' WA,
                     mkSub 1010000 ''alice'' ''A'' WA, mkSub 1020000 ''alice'' ''A'' WA],
      submissionLimit = Some 2\<rparr>"

definition contestOpen :: contest where
  "contestOpen =
     \<lparr>startTime = 1000000, endTime = 2000000, problems = [problemA],
      submissions = [], submissionLimit = Some 10\<rparr>"

definition contestBlank :: contest where
  "contestBlank =
     \<lparr>startTime = 1000000, endTime = 2000000, problems = [problemBlank],
      submissions = [], submissionLimit = Some 10\<rparr>"

text \<open>
  Scenario C of the specification: the limit is ten and \<open>alice\<close> has handed in ten wrong
  answers during the contest.
\<close>

definition contestTen :: contest where
  "contestTen =
     \<lparr>startTime = 1000000, endTime = 2000000, problems = [problemA],
      submissions = map (\<lambda>d. mkSub d ''alice'' ''A'' WA)
        [1010000, 1020000, 1030000, 1040000, 1050000, 1060000, 1070000, 1080000, 1090000,
         1100000],
      submissionLimit = Some 10\<rparr>"

text \<open>Scenario A of the specification: a wrong answer at +10s, the accepted one at +70s.\<close>

definition contestA :: contest where
  "contestA =
     \<lparr>startTime = 1000000, endTime = 2000000, problems = [problemA],
      submissions = [mkSub 1010000 ''alice'' ''A'' WA, mkSub 1070000 ''alice'' ''A'' CA],
      submissionLimit = Some 10\<rparr>"

text \<open>
  \<open>bob\<close> hands in the right answer ten seconds before the contest starts: \<open>contestEarly\<close>
  is what the submit route saves for \<open>contestOpen\<close> then.
\<close>

definition bob :: account where
  "bob = \<lparr>username = ''bob'', isAdmin = False\<rparr>"

definition contestEarly :: contest where
  "contestEarly =
     \<lparr>startTime = 1000000, endTime = 2000000, problems = [problemA],
      submissions =
        [\<lparr>contestId = 0, date = 990000, problemId = ''A'', user = ''bob'', result = CA,
          answer = ''7''\<rparr>],
      submissionLimit = Some 10\<rparr>"

text \<open>
  A registered user whose name is \<^verbatim>\<open>constructor\<close> hands in an answer during the contest:
  \<open>contestConstructor\<close> is what the submit route saves for \<open>contestOpen\<close> then.
\<close>

definition userConstructor :: account where
  "userConstructor = \<lparr>username = ''constructor'', isAdmin = False\<rparr>"

definition contestConstructor :: contest where
  "contestConstructor =
     \<lparr>startTime = 1000000, endTime = 2000000, problems = [problemA],
      submissions =
        [\<lparr>contestId = 0, date = 1500000, problemId = ''A'', user = ''constructor'', result = CA,
          answer = ''7''\<rparr>],
      submissionLimit = Some 10\<rparr>"

text \<open>
  A contest with the problems \<^verbatim>\<open>c\<close> and \<^verbatim>\<open>b-c\<close> (the second one added through the
  problem route of the administration, which takes any id). User \<^verbatim>\<open>a-b\<close> gives a wrong
  answer to \<^verbatim>\<open>c\<close>, then user \<^verbatim>\<open>a\<close> gives the right answer to \<^verbatim>\<open>b-c\<close>.
\<close>

definition problemC :: problem where
  "problemC = \<lparr>problem_id = ''c'', problem_score = Some 100, correctAnswer = Some ''7''\<rparr>"

definition problemBC :: problem where
  "problemBC = \<lparr>problem_id = ''b-c'', problem_score = Some 100, correctAnswer = Some ''7''\<rparr>"

definition wrongByAB :: submission where
  "wrongByAB =
     \<lparr>contestId = 0, date = 1010000, problemId = ''c'', user = ''a-b'', result = WA,
      answer = ''3''\<rparr>"

definition acceptedByA :: submission where
  "acceptedByA =
     \<lparr>contestId = 0, date = 1020000, problemId = ''b-c'', user = ''a'', result = CA,
      answer = ''7''\<rparr>"

definition contestDash :: contest where
  "contestDash =
     \<lparr>startTime = 1000000, endTime = 2000000, problems = [problemC, problemBC],
      submissions = [wrongByAB, acceptedByA],
      submissionLimit = Some 10\<rparr>"

definition userA :: account where
  "userA = \<lparr>username = ''a'', isAdmin = False\<rparr>"

section \<open>Evaluating the examples\<close>

lemmas example_defs =
  mkSub_def problemA_def problemBlank_def alice_def admin_def bob_def userConstructor_def
  clockAt_def contestFull_def contestOpen_def contestBlank_def contestTen_def contestA_def
  contestEarly_def contestConstructor_def problemC_def problemBC_def wrongByAB_def
  acceptedByA_def contestDash_def userA_def

section \<open>Properties of the judge\<close>

lemma trim_Nil: "trim [] = []"
  by (simp add: trim_def)

lemma judgeResult_cases:
  "judgeResult p s =
     (case correctAnswer p of
        None \<Rightarrow> UNJUDGED
      | Some ca \<Rightarrow> if trim ca = [] then UNJUDGED else if s = trim ca then CA else WA)"
  by (simp add: judgeResult_def trim_Nil split: option.splits)

text \<open>
  Claim C5. A caller who can manage the contest and submits while the contest is active
  (at the instant of the manager check) is answered with \<open>ForbiddenManagerSubmission\<close>, and
  the contests, hence the ledger, are returned unchanged.
\<close>

theorem submit_manager_forbidden:
  assumes "usr = Some u" "cidParam = Some cid" "0 \<le> cid" "cid < int (length contests)"
    and "canManageContest usr (contests ! nat cid)"
    and "isContestStartedOrActive (nowManagerCheck clk) (contests ! nat cid)"
  shows "submitAnswer clk usr contests cidParam pid ans = (ForbiddenManagerSubmission, contests)"
  using assms by (simp add: submitAnswer_def Let_def)

theorem submit_manager_forbidden_witness:
  "canManageContest (Some admin) ([contestFull] ! nat 0) \<and>
   isContestStartedOrActive (nowManagerCheck (clockAt 1500000)) ([contestFull] ! nat 0) \<and>
   submitAnswer (clockAt 1500000) (Some admin) [contestFull] (Some 0) ''A'' (Some ''7'')
     = (ForbiddenManagerSubmission, [contestFull])"
proof -
  have m: "canManageContest (Some admin) ([contestFull] ! nat 0)"
    by (simp add: canManageContest_def admin_def)
  have a: "isContestStartedOrActive (nowManagerCheck (clockAt 1500000)) ([contestFull] ! nat 0)"
    by (simp add: isContestStartedOrActive_def example_defs)
  show ?thesis
    using m a submit_manager_forbidden [of "Some admin" admin "Some 0" 0 "[contestFull]"
        "clockAt 1500000" "''A''" "Some ''7''"]
    by simp
qed

text \<open>
  Claim C6, as stated, fails: the claim makes "active and limit reached" sufficient for
  \<open>SubmissionLimitExceeded\<close>, but the manager check comes first. In \<open>contestFull\<close> the
  administrator has two submissions inside the window (made before the start) and the limit
  is two; submitting during the contest is answered with \<open>ForbiddenManagerSubmission\<close>.
\<close>

theorem submit_limit_counterexample:
  "isContestStartedOrActive (nowLimitCheck (clockAt 1500000)) contestFull \<and>
   int (length (userProblemSubmissionsDuringContest contestFull (username admin) ''A''))
     \<ge> limitOr10 contestFull \<and>
   fst (submitAnswer (clockAt 1500000) (Some admin) [contestFull] (Some 0) ''A'' (Some ''3''))
     \<noteq> SubmissionLimitExceeded"
  by (simp add: submitAnswer_def Let_def isContestStartedOrActive_def canManageContest_def
      userProblemSubmissionsDuringContest_def limitOr10_def example_defs)

text \<open>
  Claim C6, amended. For an authenticated caller, an existing contest and an existing
  problem, the answer is \<open>SubmissionLimitExceeded\<close> exactly when the attempt is not stopped
  by the manager check, the contest is active and the caller's submissions for the problem
  with \<open>date \<le> endTime\<close> number at least \<open>submissionLimit || 10\<close>. When the contest is not
  active the limit never rejects, and an attempt with a well-formed answer made outside the
  active window is accepted whatever the count is.
\<close>

theorem submit_limit_exceeded_iff:
  assumes "usr = Some u" "cidParam = Some cid" "0 \<le> cid" "cid < int (length contests)"
    and "c = contests ! nat cid"
    and "find (\<lambda>p. problem_id p = pid) (problems c) = Some p"
  shows "(fst (submitAnswer clk usr contests cidParam pid ans) = SubmissionLimitExceeded \<longleftrightarrow>
            \<not> (isContestStartedOrActive (nowManagerCheck clk) c \<and> canManageContest usr c) \<and>
            isContestStartedOrActive (nowLimitCheck clk) c \<and>
            int (length (userProblemSubmissionsDuringContest c (username u) pid)) \<ge> limitOr10 c) \<and>
         (\<not> isContestStartedOrActive (nowLimitCheck clk) c \<longrightarrow>
            fst (submitAnswer clk usr contests cidParam pid ans) \<noteq> SubmissionLimitExceeded) \<and>
         (\<not> isContestStartedOrActive (nowManagerCheck clk) c \<and>
          \<not> isContestStartedOrActive (nowLimitCheck clk) c \<and>
          ans = Some a \<and> regexTest (trim a) \<longrightarrow>
            fst (submitAnswer clk usr contests cidParam pid ans) = Submitted)"
  using assms by (auto simp add: submitAnswer_def Let_def split: option.splits)

theorem submit_limit_exceeded_iff_witness:
  "fst (submitAnswer (clockAt 1500000) (Some alice) [contestTen] (Some 0) ''A'' (Some ''3''))
     = SubmissionLimitExceeded \<and>
   fst (submitAnswer (clockAt 2500000) (Some alice) [contestTen] (Some 0) ''A'' (Some ''3''))
     = Submitted"
proof -
  have f: "find (\<lambda>p. problem_id p = ''A'') (problems contestTen) = Some problemA"
    by (simp add: example_defs)
  have act: "isContestStartedOrActive 1500000 contestTen"
    and nact: "\<not> isContestStartedOrActive 2500000 contestTen"
    by (simp_all add: isContestStartedOrActive_def example_defs)
  have man: "\<not> canManageContest (Some alice) contestTen"
    by (simp add: canManageContest_def alice_def)
  have cnt: "int (length (userProblemSubmissionsDuringContest contestTen (username alice) ''A''))
      \<ge> limitOr10 contestTen"
    by (simp add: userProblemSubmissionsDuringContest_def limitOr10_def example_defs)
  have rx: "regexTest (trim ''3'')"
    by (simp add: regexTest_def trim_def isWhiteSpace_def isDigit_def)
  note t1 = submit_limit_exceeded_iff [of "Some alice" alice "Some 0" 0 "[contestTen]" contestTen
      "''A''" problemA "clockAt 1500000" "Some ''3''" "''3''"]
  note t2 = submit_limit_exceeded_iff [of "Some alice" alice "Some 0" 0 "[contestTen]" contestTen
      "''A''" problemA "clockAt 2500000" "Some ''3''" "''3''"]
  have 1: "fst (submitAnswer (clockAt 1500000) (Some alice) [contestTen] (Some 0) ''A'' (Some ''3''))
     = SubmissionLimitExceeded"
    using t1 f act man cnt by (simp add: clockAt_def)
  have 2: "fst (submitAnswer (clockAt 2500000) (Some alice) [contestTen] (Some 0) ''A'' (Some ''3''))
     = Submitted"
    using t2 f nact rx by (simp add: clockAt_def)
  show ?thesis using 1 2 by simp
qed

text \<open>
  Claim C7, as stated, fails when the stored correct answer consists of white space only:
  it is set, yet the record is stored as \<open>UNJUDGED\<close>, because the source tests the trimmed
  string for emptiness a second time.
\<close>

theorem submit_blank_answer_counterexample:
  "correctAnswer problemBlank = Some '' '' \<and>
   trim ''7'' \<noteq> trim '' '' \<and>
   submitAnswer (clockAt 1500000) (Some alice) [contestBlank] (Some 0) ''A'' (Some ''7'')
     = (Submitted,
        [contestBlank\<lparr>submissions :=
           [\<lparr>contestId = 0, date = 1500000, problemId = ''A'', user = ''alice'',
             result = UNJUDGED, answer = ''7''\<rparr>]\<rparr>])"
  by (simp add: submitAnswer_def Let_def isContestStartedOrActive_def canManageContest_def
      userProblemSubmissionsDuringContest_def limitOr10_def judgeResult_def regexTest_def
      trim_def isWhiteSpace_def isDigit_def example_defs)

text \<open>
  Claim C7, amended. An accepted attempt appends exactly one record; its answer is the
  trimmed input and its result is \<open>UNJUDGED\<close> when the problem's correct answer is unset or
  is empty after trimming, otherwise \<open>CA\<close> when the trimmed input and the trimmed correct
  answer are the same string, and \<open>WA\<close> when they differ.
\<close>

theorem submit_stored_result:
  assumes "usr = Some u" "cidParam = Some cid" "0 \<le> cid" "cid < int (length contests)"
    and "c = contests ! nat cid"
    and "find (\<lambda>p. problem_id p = pid) (problems c) = Some p"
    and "ans = Some a"
    and "fst (submitAnswer clk usr contests cidParam pid ans) = Submitted"
  shows "snd (submitAnswer clk usr contests cidParam pid ans) =
           contests[nat cid := c\<lparr>submissions := submissions c @
             [\<lparr>contestId = cid, date = nowSubmission clk, problemId = pid, user = username u,
               result =
                 (case correctAnswer p of
                    None \<Rightarrow> UNJUDGED
                  | Some ca \<Rightarrow>
                      if trim ca = [] then UNJUDGED
                      else if trim a = trim ca then CA else WA),
               answer = trim a\<rparr>]\<rparr>]"
  using assms
  by (auto simp add: submitAnswer_def Let_def judgeResult_cases split: option.splits if_splits)

theorem submit_stored_result_witness:
  "snd (submitAnswer (clockAt 1500000) (Some alice) [contestOpen] (Some 0) ''A'' (Some ''007'')) =
     [contestOpen\<lparr>submissions :=
        [\<lparr>contestId = 0, date = 1500000, problemId = ''A'', user = ''alice'',
          result = WA, answer = ''007''\<rparr>]\<rparr>]"
proof -
  have f: "find (\<lambda>p. problem_id p = ''A'') (problems contestOpen) = Some problemA"
    by (simp add: example_defs)
  have ok: "fst (submitAnswer (clockAt 1500000) (Some alice) [contestOpen] (Some 0) ''A''
      (Some ''007'')) = Submitted"
    by (simp add: submitAnswer_def Let_def isContestStartedOrActive_def canManageContest_def
        userProblemSubmissionsDuringContest_def limitOr10_def regexTest_def
        trim_def isWhiteSpace_def isDigit_def example_defs)
  have t: "trim ''007'' = ''007''" "trim ''7'' = ''7''"
    by (simp_all add: trim_def isWhiteSpace_def)
  show ?thesis
    using submit_stored_result [of "Some alice" alice "Some 0" 0 "[contestOpen]" contestOpen
        "''A''" problemA "Some ''007''" "''007''" "clockAt 1500000"] f ok t
    by (simp add: example_defs)
qed

text \<open>
  Claim C9, as stated, fails: an ill-formed answer is not always answered with
  \<open>InvalidAnswerFormat\<close>, since the manager check and the limit check come before the
  format check. The administrator sending \<^verbatim>\<open>7a\<close> during the contest is answered with
  \<open>ForbiddenManagerSubmission\<close>.
\<close>

theorem submit_format_counterexample:
  "\<not> regexTest (trim ''7a'') \<and>
   fst (submitAnswer (clockAt 1500000) (Some admin) [contestOpen] (Some 0) ''A'' (Some ''7a''))
     = ForbiddenManagerSubmission"
  by (simp add: submitAnswer_def Let_def isContestStartedOrActive_def canManageContest_def
      regexTest_def trim_def isWhiteSpace_def isDigit_def example_defs)

lemma rev_split: "xs = rev (dropWhile P (rev xs)) @ rev (takeWhile P (rev xs))"
proof -
  have "rev (rev xs) = rev (takeWhile P (rev xs) @ dropWhile P (rev xs))"
    by (simp only: takeWhile_dropWhile_id)
  then show ?thesis
    by (simp only: rev_rev_ident rev_append)
qed

lemma trim_split:
  "dropWhile isWhiteSpace a =
     trim a @ rev (takeWhile isWhiteSpace (rev (dropWhile isWhiteSpace a)))"
  unfolding trim_def by (rule rev_split)

lemma trim_decomposition:
  "\<exists>l r. a = l @ trim a @ r \<and> (\<forall>ch\<in>set l. isWhiteSpace ch) \<and> (\<forall>ch\<in>set r. isWhiteSpace ch)"
proof -
  let ?l = "takeWhile isWhiteSpace a"
  let ?r = "rev (takeWhile isWhiteSpace (rev (dropWhile isWhiteSpace a)))"
  have "a = ?l @ dropWhile isWhiteSpace a"
    by simp
  then have 1: "a = ?l @ trim a @ ?r"
    using trim_split [of a] by simp
  have 3: "\<forall>ch\<in>set ?l. isWhiteSpace ch"
    by (auto dest: set_takeWhileD)
  have 4: "\<forall>ch\<in>set ?r. isWhiteSpace ch"
    by (auto dest: set_takeWhileD)
  show ?thesis using 1 3 4 by blast
qed

lemma trim_ends:
  assumes "trim a \<noteq> []"
  shows "\<not> isWhiteSpace (hd (trim a)) \<and> \<not> isWhiteSpace (last (trim a))"
proof -
  let ?b = "dropWhile isWhiteSpace a"
  let ?c = "dropWhile isWhiteSpace (rev ?b)"
  have c: "?c \<noteq> []" and t: "trim a = rev ?c"
    using assms by (simp_all add: trim_def)
  have "\<not> isWhiteSpace (hd ?c)"
    using c by (rule hd_dropWhile)
  then have l: "\<not> isWhiteSpace (last (trim a))"
    using c t by (simp add: last_rev)
  have b: "?b \<noteq> []"
  proof
    assume e: "?b = []"
    have "?c = []" unfolding e by simp
    then show False using c by simp
  qed
  have hb: "\<not> isWhiteSpace (hd ?b)"
    using b by (rule hd_dropWhile)
  have "hd ?b = hd (trim a @ rev (takeWhile isWhiteSpace (rev ?b)))"
    using trim_split [of a] by simp
  then have "hd ?b = hd (trim a)"
    using assms by simp
  then show ?thesis using hb l by simp
qed

lemma isWhiteSpace_codes:
  "isWhiteSpace ch \<longleftrightarrow> (of_char ch :: int) \<in> {9, 10, 11, 12, 13, 32, 160}"
  by (simp add: isWhiteSpace_def)

lemma regexTest_digits:
  "regexTest s \<longleftrightarrow> s \<noteq> [] \<and> set s \<subseteq> set ''0123456789''"
proof -
  have dig: "isDigit ch \<longleftrightarrow> ch \<in> set ''0123456789''" for ch
  proof
    assume "isDigit ch"
    then have "48 \<le> (of_char ch :: int)" "(of_char ch :: int) \<le> 57"
      by (simp_all add: isDigit_def)
    then have "(of_char ch :: int) = 48 \<or> (of_char ch :: int) = 49 \<or>
        (of_char ch :: int) = 50 \<or> (of_char ch :: int) = 51 \<or> (of_char ch :: int) = 52 \<or>
        (of_char ch :: int) = 53 \<or> (of_char ch :: int) = 54 \<or> (of_char ch :: int) = 55 \<or>
        (of_char ch :: int) = 56 \<or> (of_char ch :: int) = 57"
      by presburger
    then have "(of_char ch :: int) \<in> {48, 49, 50, 51, 52, 53, 54, 55, 56, 57}"
      by blast
    then have "(of_char ch :: int) \<in> of_char ` set ''0123456789''"
      by simp
    then obtain d where d: "d \<in> set ''0123456789''" "(of_char ch :: int) = of_char d"
      by blast
    then have "ch = d" by simp
    then show "ch \<in> set ''0123456789''" using d by simp
  next
    assume "ch \<in> set ''0123456789''"
    then show "isDigit ch" by (auto simp add: isDigit_def)
  qed
  have "(\<forall>ch\<in>set s. isDigit ch) \<longleftrightarrow> (\<forall>ch\<in>set s. ch \<in> set ''0123456789'')"
    by (simp only: dig)
  then have "list_all isDigit s \<longleftrightarrow> set s \<subseteq> set ''0123456789''"
    by (simp only: list_all_iff subset_eq)
  then show ?thesis
    by (simp only: regexTest_def)
qed

text \<open>
  Claim C9, amended. The input is trimmed before the test: the answer \<open>a\<close> is its trimmed
  form between two runs of white space (code units 9 to 13, 32 and 160), the trimmed form
  neither starts nor ends with white space, and the test is made on the trimmed form, which
  passes exactly when it is a non-empty string of the digits 0 to 9. An attempt whose
  trimmed answer fails the test is never accepted and the contests are returned unchanged,
  whatever the other checks say. When the attempt reaches the format check (authenticated
  caller, existing contest and problem, not stopped by the manager check or the limit
  check), it is answered with \<open>InvalidAnswerFormat\<close> exactly when the trimmed answer fails
  the test, for every problem \<open>p\<close> and so whatever its stored correct answer is; otherwise
  it is accepted and the trimmed answer is stored.
\<close>

theorem submit_invalid_format:
  assumes "ans = Some a"
  shows "(\<exists>l r. a = l @ trim a @ r \<and>
            (\<forall>ch\<in>set l. (of_char ch :: int) \<in> {9, 10, 11, 12, 13, 32, 160}) \<and>
            (\<forall>ch\<in>set r. (of_char ch :: int) \<in> {9, 10, 11, 12, 13, 32, 160})) \<and>
         (trim a \<noteq> [] \<longrightarrow>
            (of_char (hd (trim a)) :: int) \<notin> {9, 10, 11, 12, 13, 32, 160} \<and>
            (of_char (last (trim a)) :: int) \<notin> {9, 10, 11, 12, 13, 32, 160}) \<and>
         (regexTest (trim a) \<longleftrightarrow> trim a \<noteq> [] \<and> set (trim a) \<subseteq> set ''0123456789'') \<and>
         (\<not> regexTest (trim a) \<longrightarrow>
            snd (submitAnswer clk usr contests cidParam pid ans) = contests \<and>
            fst (submitAnswer clk usr contests cidParam pid ans) \<noteq> Submitted) \<and>
         (usr = Some u \<and> cidParam = Some cid \<and> 0 \<le> cid \<and> cid < int (length contests) \<and>
          \<not> (isContestStartedOrActive (nowManagerCheck clk) (contests ! nat cid) \<and>
             canManageContest usr (contests ! nat cid)) \<and>
          find (\<lambda>p. problem_id p = pid) (problems (contests ! nat cid)) = Some p \<and>
          \<not> (isContestStartedOrActive (nowLimitCheck clk) (contests ! nat cid) \<and>
             int (length (userProblemSubmissionsDuringContest (contests ! nat cid)
                    (username u) pid)) \<ge> limitOr10 (contests ! nat cid))
          \<longrightarrow>
            (submitAnswer clk usr contests cidParam pid ans = (InvalidAnswerFormat, contests)
               \<longleftrightarrow> \<not> regexTest (trim a)) \<and>
            (regexTest (trim a) \<longrightarrow>
               fst (submitAnswer clk usr contests cidParam pid ans) = Submitted \<and>
               map answer (submissions (snd (submitAnswer clk usr contests cidParam pid ans)
                                          ! nat cid))
                 = map answer (submissions (contests ! nat cid)) @ [trim a]))"
proof (intro conjI)
  show "\<exists>l r. a = l @ trim a @ r \<and>
            (\<forall>ch\<in>set l. (of_char ch :: int) \<in> {9, 10, 11, 12, 13, 32, 160}) \<and>
            (\<forall>ch\<in>set r. (of_char ch :: int) \<in> {9, 10, 11, 12, 13, 32, 160})"
    using trim_decomposition [of a] by (simp only: isWhiteSpace_codes)
  show "trim a \<noteq> [] \<longrightarrow>
            (of_char (hd (trim a)) :: int) \<notin> {9, 10, 11, 12, 13, 32, 160} \<and>
            (of_char (last (trim a)) :: int) \<notin> {9, 10, 11, 12, 13, 32, 160}"
    using trim_ends [of a] by (simp only: isWhiteSpace_codes) blast
  show "regexTest (trim a) \<longleftrightarrow> trim a \<noteq> [] \<and> set (trim a) \<subseteq> set ''0123456789''"
    by (rule regexTest_digits)
  show "\<not> regexTest (trim a) \<longrightarrow>
            snd (submitAnswer clk usr contests cidParam pid ans) = contests \<and>
            fst (submitAnswer clk usr contests cidParam pid ans) \<noteq> Submitted"
    using assms by (auto simp add: submitAnswer_def Let_def split: option.splits)
  show "usr = Some u \<and> cidParam = Some cid \<and> 0 \<le> cid \<and> cid < int (length contests) \<and>
          \<not> (isContestStartedOrActive (nowManagerCheck clk) (contests ! nat cid) \<and>
             canManageContest usr (contests ! nat cid)) \<and>
          find (\<lambda>p. problem_id p = pid) (problems (contests ! nat cid)) = Some p \<and>
          \<not> (isContestStartedOrActive (nowLimitCheck clk) (contests ! nat cid) \<and>
             int (length (userProblemSubmissionsDuringContest (contests ! nat cid)
                    (username u) pid)) \<ge> limitOr10 (contests ! nat cid))
          \<longrightarrow>
            (submitAnswer clk usr contests cidParam pid ans = (InvalidAnswerFormat, contests)
               \<longleftrightarrow> \<not> regexTest (trim a)) \<and>
            (regexTest (trim a) \<longrightarrow>
               fst (submitAnswer clk usr contests cidParam pid ans) = Submitted \<and>
               map answer (submissions (snd (submitAnswer clk usr contests cidParam pid ans)
                                          ! nat cid))
                 = map answer (submissions (contests ! nat cid)) @ [trim a])"
    using assms by (auto simp add: submitAnswer_def Let_def split: option.splits)
qed

theorem submit_invalid_format_witness:
  "\<not> regexTest (trim '' 7a '') \<and>
   submitAnswer (clockAt 1500000) (Some alice) [contestOpen] (Some 0) ''A'' (Some '' 7a '')
     = (InvalidAnswerFormat, [contestOpen]) \<and>
   regexTest (trim '' 7 '') \<and>
   fst (submitAnswer (clockAt 1500000) (Some alice) [contestOpen] (Some 0) ''A'' (Some '' 7 ''))
     = Submitted \<and>
   map answer (submissions (snd (submitAnswer (clockAt 1500000) (Some alice) [contestOpen]
                                   (Some 0) ''A'' (Some '' 7 '')) ! nat 0))
     = [''7'']"
proof -
  have rx: "\<not> regexTest (trim '' 7a '')" and ok: "regexTest (trim '' 7 '')"
    and tr: "trim '' 7 '' = ''7''"
    by (simp_all add: regexTest_def trim_def isWhiteSpace_def isDigit_def)
  have f: "find (\<lambda>p. problem_id p = ''A'') (problems ([contestOpen] ! nat 0)) = Some problemA"
    by (simp add: example_defs)
  have man: "\<not> canManageContest (Some alice) ([contestOpen] ! nat 0)"
    by (simp add: canManageContest_def alice_def)
  have cnt: "\<not> int (length (userProblemSubmissionsDuringContest ([contestOpen] ! nat 0)
                    (username alice) ''A'')) \<ge> limitOr10 ([contestOpen] ! nat 0)"
    by (simp add: userProblemSubmissionsDuringContest_def limitOr10_def example_defs)
  have old: "submissions ([contestOpen] ! nat 0) = []"
    by (simp add: example_defs)
  note bad = submit_invalid_format [of "Some '' 7a ''" "'' 7a ''" "clockAt 1500000" "Some alice"
      "[contestOpen]" "Some 0" "''A''" alice 0 problemA]
  note good = submit_invalid_format [of "Some '' 7 ''" "'' 7 ''" "clockAt 1500000" "Some alice"
      "[contestOpen]" "Some 0" "''A''" alice 0 problemA]
  have 1: "submitAnswer (clockAt 1500000) (Some alice) [contestOpen] (Some 0) ''A'' (Some '' 7a '')
     = (InvalidAnswerFormat, [contestOpen])"
    using bad rx f man cnt by simp
  have 2: "fst (submitAnswer (clockAt 1500000) (Some alice) [contestOpen] (Some 0) ''A''
      (Some '' 7 '')) = Submitted"
    and 3: "map answer (submissions (snd (submitAnswer (clockAt 1500000) (Some alice) [contestOpen]
                                   (Some 0) ''A'' (Some '' 7 '')) ! nat 0)) = [''7'']"
    using good ok f man cnt old tr by simp_all
  show ?thesis using rx ok 1 2 3 by (simp only: simp_thms)
qed

section \<open>Properties of the ranking\<close>

subsection \<open>Window exclusion\<close>

lemma submissionsDuringContest_filter_eq:
  assumes "filter (\<lambda>sub. date sub \<le> endTime c) subs =
           filter (\<lambda>sub. date sub \<le> endTime c) (submissions c)"
  shows "submissionsDuringContest (c\<lparr>submissions := subs\<rparr>) = submissionsDuringContest c"
  using assms by (simp add: submissionsDuringContest_def)

text \<open>
  Claim C8. Two ledgers that differ only by submissions made after \<open>endTime\<close> (some added,
  some removed, anywhere in the list) have the same submissions with \<open>date \<le> endTime\<close> in
  the same order; the ranking page (ordered entries and FA table) is then the same.
\<close>

theorem ranking_window_exclusion:
  assumes "filter (\<lambda>sub. date sub \<le> endTime c) subs =
           filter (\<lambda>sub. date sub \<le> endTime c) (submissions c)"
  shows "rankingOutput (c\<lparr>submissions := subs\<rparr>) = rankingOutput c"
proof -
  have d: "submissionsDuringContest (c\<lparr>submissions := subs\<rparr>) = submissionsDuringContest c"
    using assms by (rule submissionsDuringContest_filter_eq)
  have f: "rankFold (c\<lparr>submissions := subs\<rparr>) = rankFold c"
    by (simp add: rankFold_def sortedSubmissions_def d problemScores_def)
  show ?thesis
    by (simp add: rankingOutput_def f)
qed

theorem ranking_window_exclusion_witness:
  "rankingOutput (contestA\<lparr>submissions :=
      mkSub 2000001 ''bob'' ''A'' CA # submissions contestA @ [mkSub 3000000 ''alice'' ''A'' WA]\<rparr>)
   = rankingOutput contestA"
proof -
  have "filter (\<lambda>sub. date sub \<le> endTime contestA)
          (mkSub 2000001 ''bob'' ''A'' CA # submissions contestA @ [mkSub 3000000 ''alice'' ''A'' WA])
        = filter (\<lambda>sub. date sub \<le> endTime contestA) (submissions contestA)"
    by (simp add: example_defs)
  then show ?thesis by (rule ranking_window_exclusion)
qed


subsection \<open>Rounding\<close>

text \<open>
  Small integers are doubles; \<^verbatim>\<open>8018 / 1000 + 300\<close> is not, and the sum is the double
  that prints as \<^verbatim>\<open>308.01800000000003\<close>.
\<close>

lemma toDouble_examples:
  "toDouble 370 = 370 \<and> toDouble (- 10) = - 10 \<and>
   toDouble (toDouble (8018 / 1000) + 300) = 84667343141077 / 274877906944 \<and>
   toDouble 9007199254740993 = 9007199254740992"
  by code_simp

subsection \<open>Scenario A\<close>

lemma ranking_scenario_A:
  "rankingOutput contestA =
     RankingPage
       [\<lparr>rank_username = ''alice'', rank_score = 100, rank_lastCATime = 370,
         rank_problems =
           [(''A'', \<lparr>status = StCA, time = Some 70, waCountBeforeCA = 1, waCount = 1\<rparr>)],
         rank_totalWABeforeCA = 1\<rparr>]
       [(''A'', \<lparr>fa_user = ''alice'', fa_time = 1070000\<rparr>)]"
  by code_simp

subsection \<open>Submissions made before the start\<close>

text \<open>
  Claim C1 is not what the code does. The submit page tells the user that a submission
  made while the contest is not started or has ended "is possible but is not reflected in
  the ranking", and the submit route accepts it; the ranking route, however, keeps every
  submission with \<open>date \<le> endTime\<close>. The right answer that \<open>bob\<close> hands in ten seconds
  before the start is accepted, gives him an entry with score 100 and makes him first
  acceptor of problem A; with the submissions before \<open>startTime\<close> removed, the ranking and
  the FA table are empty.
\<close>

theorem ranking_counts_submission_before_start:
  "\<not> isContestStartedOrActive 990000 contestOpen \<and>
   submitAnswer (clockAt 990000) (Some bob) [contestOpen] (Some 0) ''A'' (Some ''7'')
     = (Submitted, [contestEarly]) \<and>
   rankingOutput contestEarly =
     RankingPage
       [\<lparr>rank_username = ''bob'', rank_score = 100, rank_lastCATime = 0,
         rank_problems =
           [(''A'', \<lparr>status = StCA, time = Some (- 10), waCountBeforeCA = 0, waCount = 0\<rparr>)],
         rank_totalWABeforeCA = 0\<rparr>]
       [(''A'', \<lparr>fa_user = ''bob'', fa_time = 990000\<rparr>)] \<and>
   rankingOutput (withoutEarly contestEarly) = RankingPage [] []"
  by code_simp

text \<open>
  Claim C2 is not what the code does on the same ledger, through the same defect: \<open>bob\<close>
  is ranked although his only submission precedes the start, his first accepted
  submission has offset -10 and the formula of the claim gives -10, but the entry has time
  0, because \<open>lastCATime\<close> starts at 0 and only ever takes a maximum. On Scenario A, where
  no submission precedes the start, the entry has the value of the formula, 370.
\<close>

theorem ranking_penalty_before_start:
  "map rank_username (pageEntries (rankingOutput contestEarly)) = [''bob''] \<and>
   map rank_lastCATime (pageEntries (rankingOutput contestEarly)) = [0] \<and>
   penaltyFormula (startTime contestEarly) (submissions contestEarly) ''bob'' = - 10 \<and>
   map rank_lastCATime (pageEntries (rankingOutput contestA)) = [370] \<and>
   penaltyFormula (startTime contestA) (submissions contestA) ''alice'' = 370"
  by code_simp

subsection \<open>Keys that collide\<close>

text \<open>
  Claim C4 is not what the code does when a problem id contains a dash. The key of the
  resolver joins the user and the problem with a dash, so user \<^verbatim>\<open>a-b\<close> on problem
  \<^verbatim>\<open>c\<close> and user \<^verbatim>\<open>a\<close> on problem \<^verbatim>\<open>b-c\<close> share one key, in the ranking route and
  on the contest page alike. In \<open>contestDash\<close> the only submission of \<^verbatim>\<open>a-b\<close> for
  \<^verbatim>\<open>c\<close> is a wrong answer, yet the entry under the key of that pair is the accepted
  submission of \<^verbatim>\<open>a\<close> for \<^verbatim>\<open>b-c\<close>, which took the place of the wrong answer.
\<close>

theorem resolve_key_collision:
  "submitAnswer (clockAt 1020000) (Some userA) [contestDash\<lparr>submissions := [wrongByAB]\<rparr>]
      (Some 0) ''b-c'' (Some ''7'') = (Submitted, [contestDash]) \<and>
   submissionsOf ''a-b'' ''c'' (submissionsDuringContest contestDash) = [wrongByAB] \<and>
   groupKey (rankingPrefix 0) ''a-b'' ''c'' = groupKey (rankingPrefix 0) ''a'' ''b-c'' \<and>
   map_of (userSubmissionsDuringContestMap 0 contestDash) (groupKey (rankingPrefix 0) ''a-b'' ''c'')
     = Some acceptedByA \<and>
   map_of (resolve [] (submissionsDuringContest contestDash)) (groupKey [] ''a-b'' ''c'')
     = Some acceptedByA \<and>
   user acceptedByA = ''a'' \<and> problemId acceptedByA = ''b-c''"
  by code_simp


subsection \<open>User names that name inherited properties\<close>

text \<open>
  Claim C10 is not what the code does for a user whose name is a property of
  \<^verbatim>\<open>Object.prototype\<close>. Registration takes any name; the user \<^verbatim>\<open>constructor\<close> hands in
  an answer during the contest and the submit route accepts it. The submission is in the
  window, but the ranking route creates no entry for that name, throws and answers with
  status 500: no user is ranked.
\<close>

theorem ranking_inherited_user_name:
  "submitAnswer (clockAt 1500000) (Some userConstructor) [contestOpen] (Some 0) ''A'' (Some ''7'')
     = (Submitted, [contestConstructor]) \<and>
   map user (submissionsDuringContest contestConstructor) = [''constructor''] \<and>
   date (hd (submissions contestConstructor)) \<le> endTime contestConstructor \<and>
   rankingOutput contestConstructor = RankingError500 \<and>
   pageEntries (rankingOutput contestConstructor) = []"
  by code_simp

end
